theory Spec2Isabelle
  imports Main
begin

section \<open>Values, errors and the thread-local store\<close>

text \<open>
  Go errors are built by \<open>fmt.Errorf\<close>, by \<open>errors.Wrap\<close> around an inner error, or come
  out of a collaborator (search client, decoder) as they are.
\<close>

datatype error = Errorf string | Wrap error string

text \<open>
  The Starlark values the two built-ins handle. \<open>Nil\<close> is Go's nil interface value (what
  reading an absent key of a Go map yields). \<open>Dict\<close> is a \<open>*starlark.Dict\<close>: \<open>None\<close> is
  the nil pointer, \<open>Some kvs\<close> a dictionary with its entries in insertion order.
  \<open>Struct\<close> is a \<open>*starlarkstruct.Struct\<close>, read by attribute name.
\<close>

datatype val =
    Nil
  | NoneVal
  | String string
  | ListV "val list"
  | Dict "(val \<times> val) list option"
  | Struct "string \<Rightarrow> val option"

type_synonym StringDict = "string \<Rightarrow> val option"

text \<open>\<open>thread.Local(key)\<close> and \<open>thread.SetLocal(key, v)\<close>: a store from keys to values.\<close>

type_synonym thread = "string \<Rightarrow> val option"

type_synonym kwargs = "(string \<times> val) list"

definition Local :: "thread \<Rightarrow> string \<Rightarrow> val option" where
  "Local thread key = thread key"

definition SetLocal :: "thread \<Rightarrow> string \<Rightarrow> val \<Rightarrow> thread" where
  "SetLocal thread key v = thread(key \<mapsto> v)"

text \<open>
  Modelled from the spec: the \<open>identifiers\<close> table is declared outside the examined files.
  The spec names the provider kind \<open>kube_nodes_provider\<close> and the connection
  sub-configuration key \<open>ssh_config\<close>. It does not name the key of the default
  configuration; that key is taken to be the name of the built-in, \<open>crashd_config\<close>, and
  only its being one fixed key matters below.
\<close>

record identifiers_t =
  crashdCfg :: string
  sshCfg :: string
  kubeNodesProvider :: string

definition identifiers :: identifiers_t where
  "identifiers = \<lparr> crashdCfg = ''crashd_config'', sshCfg = ''ssh_config'',
     kubeNodesProvider = ''kube_nodes_provider'' \<rparr>"

subsection \<open>Structs\<close>

text \<open>
  \<open>Attr\<close> fails on an absent attribute; \<open>ToStringDict\<close> copies every attribute into the
  given dictionary; \<open>FromStringDict\<close> builds a struct from a dictionary; \<open>index\<close> is the Go
  map read \<open>dict[k]\<close>, which yields nil on an absent key.
\<close>

definition Attr :: "StringDict \<Rightarrow> string \<Rightarrow> error + val" where
  "Attr s name = (case s name of
       Some v \<Rightarrow> Inr v
     | None \<Rightarrow> Inl (Errorf (''struct has no .'' @ name @ '' attribute'')))"

definition ToStringDict :: "StringDict \<Rightarrow> StringDict \<Rightarrow> StringDict" where
  "ToStringDict s d = d ++ s"

definition FromStringDict :: "StringDict \<Rightarrow> StringDict" where
  "FromStringDict d = d"

definition index :: "StringDict \<Rightarrow> string \<Rightarrow> val" where
  "index d k = (case d k of Some v \<Rightarrow> v | None \<Rightarrow> Nil)"

section \<open>The crashd_config built-in\<close>

text \<open>
  \<open>kwargs\<close> is a Go slice of tuples: \<open>None\<close> is the nil slice, which is what the source
  tests. Each tuple is one keyword argument, the pair of its name (a string) and its value:
  the Starlark interpreter passes keyword arguments to a built-in in this form, and so does
  \<open>addDefaultCrashdConf\<close>. \<open>tupleSliceToDict\<close> lives outside the examined files and is a
  parameter; it returns a dictionary pointer or an error. The function returns its result
  together with the updated thread.
\<close>

definition crashdConfigFn ::
  "(kwargs \<Rightarrow> error + (val \<times> val) list option) \<Rightarrow> thread \<Rightarrow> kwargs option
     \<Rightarrow> (error + val) \<times> thread" where
  "crashdConfigFn tupleSliceToDict thread kwargs =
     (case (case kwargs of
              None \<Rightarrow> Inr None
            | Some kw \<Rightarrow> tupleSliceToDict kw) of
        Inl err \<Rightarrow> (Inl err, thread)
      | Inr dictionary \<Rightarrow>
          (Inr (Dict dictionary), SetLocal thread (crashdCfg identifiers) (Dict dictionary)))"

text \<open>
  \<open>addDefaultCrashdConf\<close> calls the built-in with four keyword arguments; the values come
  from the process (\<open>getGid\<close>, \<open>getUid\<close>, \<open>defaults\<close>) and are parameters here.
\<close>

definition addDefaultCrashdConf ::
  "(kwargs \<Rightarrow> error + (val \<times> val) list option) \<Rightarrow> string \<Rightarrow> string \<Rightarrow> string \<Rightarrow> string
     \<Rightarrow> thread \<Rightarrow> error option \<times> thread" where
  "addDefaultCrashdConf tupleSliceToDict gid uid workdir outPath thread =
     (let args = [ (''gid'', String gid),
                   (''uid'', String uid),
                   (''workdir'', String workdir),
                   (''output_path'', String outPath) ]
      in case crashdConfigFn tupleSliceToDict thread (Some args) of
           (Inl err, thread') \<Rightarrow> (Some err, thread')
         | (Inr _, thread') \<Rightarrow> (None, thread'))"

section \<open>The kube_nodes_provider built-in\<close>

subsection \<open>Cluster data\<close>

text \<open>
  A node carries a list of addresses, each tagged with a type. A search result carries a
  list of items, each holding an untyped object (type \<open>'obj\<close>).
\<close>

record NodeAddress =
  Type :: string
  Address :: string

record NodeStatus =
  Addresses :: "NodeAddress list"

record Node =
  Status :: NodeStatus

record 'obj Unstructured =
  Object :: 'obj

record 'obj UnstructuredList =
  Items :: "'obj Unstructured list"

record 'obj SearchResult =
  List :: "'obj UnstructuredList"

subsection \<open>Collaborators\<close>

text \<open>
  The functions of the repository and of its libraries that the provider calls and that
  live outside the examined files: the kubeconfig lookup, the client constructor, the
  search-parameter constructor with its two readers, the search itself (group, kind,
  namespaces, version, names, labels, containers) and the decoder of one untyped object.
\<close>

record ('client, 'obj, 'sp) env =
  getKubeConfigPath :: "thread \<Rightarrow> StringDict \<Rightarrow> error + string"
  k8sNew :: "string \<Rightarrow> error + 'client"
  NewSearchParams :: "StringDict \<Rightarrow> 'sp"
  Names :: "'sp \<Rightarrow> string"
  Labels :: "'sp \<Rightarrow> string"
  Search :: "'client \<Rightarrow> string \<Rightarrow> string \<Rightarrow> string \<Rightarrow> string \<Rightarrow> string \<Rightarrow> string \<Rightarrow> string
               \<Rightarrow> error + 'obj SearchResult list"
  FromUnstructured :: "'obj \<Rightarrow> error + Node"

subsection \<open>getNodeInternalIP\<close>

fun internalIPLoop :: "NodeAddress list \<Rightarrow> string" where
  "internalIPLoop [] = ''''"
| "internalIPLoop (addr # addrs) =
     (if Type addr = ''InternalIP'' then Address addr else internalIPLoop addrs)"

definition getNodeInternalIP :: "Node \<Rightarrow> string" where
  "getNodeInternalIP node = internalIPLoop (Addresses (Status node))"

subsection \<open>generateSearchParams\<close>

definition generateSearchParams :: "(StringDict \<Rightarrow> 'sp) \<Rightarrow> StringDict \<Rightarrow> 'sp" where
  "generateSearchParams newSearchParams structVal =
     (case Attr structVal ''nodes'' of
        Inr _ \<Rightarrow>
          (let dict = ToStringDict structVal Map.empty;
               dict = dict(''names'' \<mapsto> index dict ''nodes'')
           in newSearchParams (FromStringDict dict))
      | Inl _ \<Rightarrow> newSearchParams structVal)"

subsection \<open>getNodes\<close>

text \<open>
  The two nested loops, with the nodes collected so far as accumulator; the first item that
  does not decode ends both loops with its error.
\<close>

fun collateItems ::
  "('obj \<Rightarrow> error + Node) \<Rightarrow> 'obj Unstructured list \<Rightarrow> Node list \<Rightarrow> error + Node list" where
  "collateItems conv [] nodes = Inr nodes"
| "collateItems conv (item # items) nodes =
     (case conv (Object item) of
        Inl err \<Rightarrow> Inl err
      | Inr node \<Rightarrow> collateItems conv items (nodes @ [node]))"

fun collate ::
  "('obj \<Rightarrow> error + Node) \<Rightarrow> 'obj SearchResult list \<Rightarrow> Node list \<Rightarrow> error + Node list" where
  "collate conv [] nodes = Inr nodes"
| "collate conv (result # results) nodes =
     (case collateItems conv (Items (List result)) nodes of
        Inl err \<Rightarrow> Inl err
      | Inr nodes' \<Rightarrow> collate conv results nodes')"

definition getNodes ::
  "('client, 'obj, 'sp) env \<Rightarrow> 'client \<Rightarrow> string \<Rightarrow> string \<Rightarrow> error + Node list" where
  "getNodes e k8sc names labels =
     (case Search e k8sc ''core'' ''nodes'' '''' '''' names labels '''' of
        Inl err \<Rightarrow> Inl err
      | Inr nodeResults \<Rightarrow> collate (FromUnstructured e) nodeResults [])"

subsection \<open>newKubeNodesProvider\<close>

text \<open>The loop that appends one host string per node.\<close>

fun nodeIpsLoop :: "Node list \<Rightarrow> val list \<Rightarrow> val list" where
  "nodeIpsLoop [] nodeIps = nodeIps"
| "nodeIpsLoop (node # nodes) nodeIps =
     nodeIpsLoop nodes (nodeIps @ [String (getNodeInternalIP node)])"

definition newKubeNodesProvider ::
  "('client, 'obj, 'sp) env \<Rightarrow> thread \<Rightarrow> StringDict \<Rightarrow> error + StringDict" where
  "newKubeNodesProvider e thread structVal =
     (case getKubeConfigPath e thread structVal of
        Inl err \<Rightarrow> Inl (Wrap err ''failed to kubeconfig'')
      | Inr kubeconfig \<Rightarrow>
     (case k8sNew e kubeconfig of
        Inl err \<Rightarrow> Inl (Wrap err ''could not initialize search client'')
      | Inr client \<Rightarrow>
     (let searchParams = generateSearchParams (NewSearchParams e) structVal in
      case getNodes e client (Names e searchParams) (Labels e searchParams) of
        Inl err \<Rightarrow> Inl (Wrap err ''could not fetch nodes'')
      | Inr nodes \<Rightarrow>
     (let kubeNodesProviderDict =
            [''kind'' \<mapsto> String (kubeNodesProvider identifiers),
             ''transport'' \<mapsto> String ''ssh''];
          nodeIps = nodeIpsLoop nodes [];
          kubeNodesProviderDict = kubeNodesProviderDict(''hosts'' \<mapsto> ListV nodeIps)
      in case kubeNodesProviderDict (sshCfg identifiers) of
           Some _ \<Rightarrow> Inr (FromStringDict kubeNodesProviderDict)
         | None \<Rightarrow>
             (case Local thread (sshCfg identifiers) of
                Some (Struct sshcfg) \<Rightarrow>
                  Inr (FromStringDict
                        (kubeNodesProviderDict(sshCfg identifiers \<mapsto> Struct sshcfg)))
              | _ \<Rightarrow>
                  Inl (Errorf (kubeNodesProvider identifiers
                                @ '': default ssh_config not found'')))))))"

text \<open>
  The built-in itself turns the keyword arguments into a struct (\<open>kwargsToStruct\<close>, outside
  the examined files, a parameter) and resolves it.
\<close>

definition KubeNodesProviderFn ::
  "('client, 'obj, 'sp) env \<Rightarrow> (kwargs \<Rightarrow> error + StringDict) \<Rightarrow> thread \<Rightarrow> kwargs
     \<Rightarrow> error + val" where
  "KubeNodesProviderFn e kwargsToStruct thread kwargs =
     (case kwargsToStruct kwargs of
        Inl err \<Rightarrow> Inl err
      | Inr structVal \<Rightarrow>
          (case newKubeNodesProvider e thread structVal of
             Inl err \<Rightarrow> Inl err
           | Inr provider \<Rightarrow> Inr (Struct provider)))"

text \<open>
  The error of the last check of \<open>newKubeNodesProvider\<close>, which the specification calls
  \<open>MissingDefaultError\<close>.
\<close>

definition MissingDefaultError :: error where
  "MissingDefaultError =
     Errorf (kubeNodesProvider identifiers @ '': default ssh_config not found'')"

section \<open>Notions used to state the properties\<close>

text \<open>The items of a raw search result, in the order the two loops of \<open>getNodes\<close> visit them.\<close>

definition allItems :: "'obj SearchResult list \<Rightarrow> 'obj Unstructured list" where
  "allItems results = concat (map (\<lambda>result. Items (List result)) results)"

subsection \<open>Concrete inputs for the worked examples\<close>

text \<open>
  An environment whose kubeconfig lookup and client construction succeed, whose search
  answers every query with the given response, and whose untyped objects are either an
  already decoded node or the decoder's error.
\<close>

definition sampleEnv ::
  "(error + (error + Node) SearchResult list) \<Rightarrow> (unit, error + Node, StringDict) env" where
  "sampleEnv response =
     \<lparr> getKubeConfigPath = (\<lambda>thread structVal. Inr ''/home/user/.kube/config''),
       k8sNew = (\<lambda>kubeconfig. Inr ()),
       NewSearchParams = (\<lambda>structVal. structVal),
       Names = (\<lambda>sp. case sp ''names'' of Some (String n) \<Rightarrow> n | _ \<Rightarrow> ''''),
       Labels = (\<lambda>sp. case sp ''labels'' of Some (String l) \<Rightarrow> l | _ \<Rightarrow> ''''),
       Search = (\<lambda>client group kind namespaces version names labels containers. response),
       FromUnstructured = (\<lambda>obj. obj) \<rparr>"

definition mkNode :: "(string \<times> string) list \<Rightarrow> Node" where
  "mkNode addrs =
     \<lparr> Status = \<lparr> Addresses = map (\<lambda>(t, a). \<lparr> Type = t, Address = a \<rparr>) addrs \<rparr> \<rparr>"

definition mkResult :: "'obj list \<Rightarrow> 'obj SearchResult" where
  "mkResult objs = \<lparr> List = \<lparr> Items = map (\<lambda>obj. \<lparr> Object = obj \<rparr>) objs \<rparr> \<rparr>"

definition nodeA :: Node where
  "nodeA = mkNode [(''Hostname'', ''node-a''), (''InternalIP'', ''10.0.0.5'')]"

definition nodeB :: Node where
  "nodeB = mkNode [(''Hostname'', ''node-b''), (''ExternalIP'', ''34.1.2.4'')]"

definition nodeC :: Node where
  "nodeC = mkNode [(''InternalIP'', ''10.0.0.7''), (''InternalIP'', ''10.0.0.8'')]"

definition sampleResults :: "(error + Node) SearchResult list" where
  "sampleResults = [mkResult [Inr nodeA, Inr nodeB], mkResult [], mkResult [Inr nodeC]]"

definition sampleSsh :: StringDict where
  "sampleSsh = [''username'' \<mapsto> String ''root'']"

text \<open>
  A dictionary converter for the examples, filling a new Starlark dictionary with the
  keyword arguments in their order: a name not yet present is appended, a name already
  present keeps its place and takes the later value. Names are strings, which a dictionary
  always accepts as keys, so this converter never fails; on no keyword arguments it yields
  the empty dictionary (not the nil pointer).
\<close>

fun SetKey :: "(val \<times> val) list \<Rightarrow> val \<Rightarrow> val \<Rightarrow> (val \<times> val) list" where
  "SetKey [] k v = [(k, v)]"
| "SetKey ((k', v') # entries) k v =
     (if k' = k then (k, v) # entries else (k', v') # SetKey entries k v)"

fun keywordsLoop :: "kwargs \<Rightarrow> (val \<times> val) list \<Rightarrow> (val \<times> val) list" where
  "keywordsLoop [] dictionary = dictionary"
| "keywordsLoop ((name, v) # tuples) dictionary =
     keywordsLoop tuples (SetKey dictionary (String name) v)"

definition keywordsToDict :: "kwargs \<Rightarrow> error + (val \<times> val) list option" where
  "keywordsToDict tuples = Inr (Some (keywordsLoop tuples []))"

lemmas sample_defs = sampleEnv_def mkResult_def mkNode_def nodeA_def nodeB_def nodeC_def
  sampleResults_def allItems_def

section \<open>Auxiliary facts\<close>

subsection \<open>The address scan\<close>

lemma internalIPLoop_none:
  "\<forall>b\<in>set addrs. Type b \<noteq> ''InternalIP'' \<Longrightarrow> internalIPLoop addrs = ''''"
  by (induction addrs) auto

lemma internalIPLoop_first:
  "\<forall>b\<in>set pre. Type b \<noteq> ''InternalIP'' \<Longrightarrow> Type a = ''InternalIP''
     \<Longrightarrow> internalIPLoop (pre @ a # post) = Address a"
  by (induction pre) auto

subsection \<open>The collating loops\<close>

lemma collateItems_Inr:
  "collateItems conv items acc = Inr ns \<Longrightarrow>
     \<exists>ms. ns = acc @ ms \<and> map (\<lambda>item. conv (Object item)) items = map Inr ms"
proof (induction items arbitrary: acc)
  case Nil
  then show ?case by simp
next
  case (Cons item items)
  then obtain node where d: "conv (Object item) = Inr node"
    and r: "collateItems conv items (acc @ [node]) = Inr ns"
    by (auto split: sum.splits)
  from Cons.IH [OF r] obtain ms where
    "ns = (acc @ [node]) @ ms" "map (\<lambda>item. conv (Object item)) items = map Inr ms"
    by blast
  with d have "ns = acc @ (node # ms) \<and>
     map (\<lambda>item. conv (Object item)) (item # items) = map Inr (node # ms)" by simp
  then show ?case by blast
qed

lemma collateItems_Inl:
  "collateItems conv items acc = Inl err \<Longrightarrow> \<exists>item\<in>set items. conv (Object item) = Inl err"
  by (induction items arbitrary: acc) (auto split: sum.splits)

lemma collate_Inr:
  "collate conv results acc = Inr ns \<Longrightarrow>
     \<exists>ms. ns = acc @ ms \<and> map (\<lambda>item. conv (Object item)) (allItems results) = map Inr ms"
proof (induction results arbitrary: acc)
  case Nil
  then show ?case by (simp add: allItems_def)
next
  case (Cons result results)
  then obtain mid where i: "collateItems conv (Items (List result)) acc = Inr mid"
    and r: "collate conv results mid = Inr ns"
    by (auto split: sum.splits)
  from collateItems_Inr [OF i] obtain ms1 where
    m1: "mid = acc @ ms1" "map (\<lambda>item. conv (Object item)) (Items (List result)) = map Inr ms1"
    by blast
  from Cons.IH [OF r] obtain ms2 where
    m2: "ns = mid @ ms2" "map (\<lambda>item. conv (Object item)) (allItems results) = map Inr ms2"
    by blast
  from m1 m2 have "ns = acc @ (ms1 @ ms2) \<and>
     map (\<lambda>item. conv (Object item)) (allItems (result # results)) = map Inr (ms1 @ ms2)"
    by (simp add: allItems_def)
  then show ?case by blast
qed

lemma collate_Inl:
  "collate conv results acc = Inl err \<Longrightarrow>
     \<exists>item\<in>set (allItems results). conv (Object item) = Inl err"
proof (induction results arbitrary: acc)
  case Nil
  then show ?case by simp
next
  case (Cons result results)
  show ?case
  proof (cases "collateItems conv (Items (List result)) acc")
    case (Inl e)
    with Cons.prems have "e = err" by simp
    with Inl collateItems_Inl [of conv "Items (List result)" acc err]
    show ?thesis by (auto simp: allItems_def)
  next
    case (Inr mid)
    with Cons.prems have "collate conv results mid = Inl err" by simp
    from Cons.IH [OF this] show ?thesis by (auto simp: allItems_def)
  qed
qed

subsection \<open>The host loop and the shape of a returned configuration\<close>

lemma nodeIpsLoop_map:
  "nodeIpsLoop nodes nodeIps = nodeIps @ map (\<lambda>node. String (getNodeInternalIP node)) nodes"
  by (induction nodes arbitrary: nodeIps) auto

lemma newKubeNodesProvider_Inr:
  assumes "newKubeNodesProvider e thread structVal = Inr cfg"
  shows "\<exists>kubeconfig client nodes sshcfg.
           getKubeConfigPath e thread structVal = Inr kubeconfig \<and>
           k8sNew e kubeconfig = Inr client \<and>
           getNodes e client (Names e (generateSearchParams (NewSearchParams e) structVal))
                             (Labels e (generateSearchParams (NewSearchParams e) structVal))
             = Inr nodes \<and>
           Local thread (sshCfg identifiers) = Some (Struct sshcfg) \<and>
           cfg = [''kind'' \<mapsto> String ''kube_nodes_provider'', ''transport'' \<mapsto> String ''ssh'',
                  ''hosts'' \<mapsto> ListV (map (\<lambda>node. String (getNodeInternalIP node)) nodes),
                  ''ssh_config'' \<mapsto> Struct sshcfg]"
  using assms
  by (auto simp: newKubeNodesProvider_def identifiers_def FromStringDict_def nodeIpsLoop_map
                 Let_def
           split: sum.splits option.splits val.splits)

subsection \<open>The worked examples, evaluated\<close>

lemma getNodes_sample:
  "getNodes (sampleEnv (Inr sampleResults)) () names labels = Inr [nodeA, nodeB, nodeC]"
  by (simp add: getNodes_def sample_defs)

lemma provider_sample:
  "newKubeNodesProvider (sampleEnv (Inr sampleResults))
     [''ssh_config'' \<mapsto> Struct sampleSsh] [''names'' \<mapsto> String ''node-a node-b node-c'']
   = Inr [''kind'' \<mapsto> String ''kube_nodes_provider'', ''transport'' \<mapsto> String ''ssh'',
          ''hosts'' \<mapsto> ListV [String ''10.0.0.5'', String '''', String ''10.0.0.7''],
          ''ssh_config'' \<mapsto> Struct sampleSsh]"
  by (simp add: newKubeNodesProvider_def getNodes_def identifiers_def Local_def Let_def
        FromStringDict_def getNodeInternalIP_def sample_defs)

lemma addDefaultCrashdConf_sample:
  "addDefaultCrashdConf keywordsToDict ''0'' ''0'' ''/tmp/crashd'' ''/tmp/out.tar.gz'' Map.empty
     = (None, [''crashd_config'' \<mapsto>
                 Dict (Some [(String ''gid'', String ''0''), (String ''uid'', String ''0''),
                             (String ''workdir'', String ''/tmp/crashd''),
                             (String ''output_path'', String ''/tmp/out.tar.gz'')])])"
  by (simp add: addDefaultCrashdConf_def crashdConfigFn_def keywordsToDict_def SetLocal_def
        identifiers_def)

text \<open>A repeated name keeps its place in the dictionary and takes the later value.\<close>

lemma keywordsToDict_repeated_name:
  "keywordsToDict [(''uid'', String ''0''), (''gid'', String ''0''), (''uid'', String ''1000'')]
     = Inr (Some [(String ''uid'', String ''1000''), (String ''gid'', String ''0'')])"
  by (simp add: keywordsToDict_def)

text \<open>
  With the converter of the examples no keyword call fails: every call stores the
  dictionary of its keyword arguments.
\<close>

lemma crashdConfigFn_keywords:
  "crashdConfigFn keywordsToDict thread (Some tuples)
     = (Inr (Dict (Some (keywordsLoop tuples []))),
        thread(crashdCfg identifiers \<mapsto> Dict (Some (keywordsLoop tuples []))))"
  by (simp add: crashdConfigFn_def keywordsToDict_def SetLocal_def)

section \<open>Properties of the provider resolution\<close>

subsection \<open>The connection sub-configuration\<close>

text \<open>
  C1. The claim: when the caller's arguments include a connection sub-configuration
  (\<open>ssh_config\<close>), the returned configuration carries that value and never the default of
  the thread. The source tests the freshly built result dictionary, which holds only
  \<open>kind\<close>, \<open>transport\<close> and \<open>hosts\<close>, so the argument is never read: with the default
  \<open>username = root\<close> in the thread and \<open>username = alice\<close> in the arguments, the result
  carries \<open>root\<close>; with no default in the thread, the same call fails although a value
  was supplied.
\<close>

theorem explicit_ssh_config_not_used:
  "newKubeNodesProvider (sampleEnv (Inr []))
     [''ssh_config'' \<mapsto> Struct [''username'' \<mapsto> String ''root'']]
     [''ssh_config'' \<mapsto> Struct [''username'' \<mapsto> String ''alice'']]
   = Inr [''kind'' \<mapsto> String ''kube_nodes_provider'', ''transport'' \<mapsto> String ''ssh'',
          ''hosts'' \<mapsto> ListV [],
          ''ssh_config'' \<mapsto> Struct [''username'' \<mapsto> String ''root'']]
   \<and> Struct [''username'' \<mapsto> String ''root''] \<noteq> Struct [''username'' \<mapsto> String ''alice'']
   \<and> newKubeNodesProvider (sampleEnv (Inr [])) Map.empty
         [''ssh_config'' \<mapsto> Struct [''username'' \<mapsto> String ''alice'']]
       = Inl MissingDefaultError"
proof -
  have "[''username'' \<mapsto> String ''root''] ''username''
          \<noteq> [''username'' \<mapsto> String ''alice''] ''username''"
    by simp
  then have "[''username'' \<mapsto> String ''root''] \<noteq> [''username'' \<mapsto> String ''alice'']"
    by metis
  then show ?thesis
    by (simp add: newKubeNodesProvider_def getNodes_def identifiers_def Local_def Let_def
          FromStringDict_def sampleEnv_def MissingDefaultError_def)
qed

text \<open>
  C2, as amended. When the arguments hold no \<open>ssh_config\<close> and the thread holds no struct
  under the \<open>ssh_config\<close> key, resolution returns an error and no configuration; when the
  kubeconfig lookup, the client construction and the node fetch have succeeded, that error
  is \<open>MissingDefaultError\<close>. (The default is looked up last, so an earlier failure is the
  one reported.)
\<close>

theorem missing_default_fails:
  assumes "structVal (sshCfg identifiers) = None"
      and "\<forall>sshcfg. Local thread (sshCfg identifiers) \<noteq> Some (Struct sshcfg)"
  shows "(\<exists>err. newKubeNodesProvider e thread structVal = Inl err) \<and>
         (getKubeConfigPath e thread structVal = Inr kubeconfig \<and>
          k8sNew e kubeconfig = Inr client \<and>
          getNodes e client (Names e (generateSearchParams (NewSearchParams e) structVal))
                            (Labels e (generateSearchParams (NewSearchParams e) structVal))
            = Inr nodes
          \<longrightarrow> newKubeNodesProvider e thread structVal = Inl MissingDefaultError)"
proof -
  have a: "\<exists>err. newKubeNodesProvider e thread structVal = Inl err"
  proof (cases "newKubeNodesProvider e thread structVal")
    case (Inl err)
    then show ?thesis by blast
  next
    case (Inr cfg)
    from newKubeNodesProvider_Inr [OF this] assms(2) show ?thesis by blast
  qed
  have b: "getKubeConfigPath e thread structVal = Inr kubeconfig \<and>
          k8sNew e kubeconfig = Inr client \<and>
          getNodes e client (Names e (generateSearchParams (NewSearchParams e) structVal))
                            (Labels e (generateSearchParams (NewSearchParams e) structVal))
            = Inr nodes
          \<longrightarrow> newKubeNodesProvider e thread structVal = Inl MissingDefaultError"
    using assms(2)
    by (auto simp: newKubeNodesProvider_def Let_def identifiers_def MissingDefaultError_def
             split: option.splits val.splits)
  from a b show ?thesis by blast
qed

text \<open>
  An instance: no default at all, and a default that is not a struct; the three nodes are
  found and then the lookup of the default fails.
\<close>

theorem missing_default_fails_witness:
  "newKubeNodesProvider (sampleEnv (Inr sampleResults)) Map.empty
     [''names'' \<mapsto> String ''node-a''] = Inl MissingDefaultError \<and>
   newKubeNodesProvider (sampleEnv (Inr sampleResults))
     [''ssh_config'' \<mapsto> String ''root@host''] [''names'' \<mapsto> String ''node-a'']
     = Inl MissingDefaultError"
proof -
  have s: "[''names'' \<mapsto> String ''node-a''] (sshCfg identifiers) = None"
    by (simp add: identifiers_def)
  have t1: "\<forall>sshcfg. Local Map.empty (sshCfg identifiers) \<noteq> Some (Struct sshcfg)"
    by (simp add: Local_def)
  have t2: "\<forall>sshcfg. Local [''ssh_config'' \<mapsto> String ''root@host''] (sshCfg identifiers)
              \<noteq> Some (Struct sshcfg)"
    by (simp add: Local_def identifiers_def)
  from missing_default_fails [where structVal = "[''names'' \<mapsto> String ''node-a'']"
         and thread = Map.empty and e = "sampleEnv (Inr sampleResults)"
         and kubeconfig = "''/home/user/.kube/config''" and client = "()"
         and nodes = "[nodeA, nodeB, nodeC]", OF s t1]
       missing_default_fails [where structVal = "[''names'' \<mapsto> String ''node-a'']"
         and thread = "[''ssh_config'' \<mapsto> String ''root@host'']"
         and e = "sampleEnv (Inr sampleResults)"
         and kubeconfig = "''/home/user/.kube/config''" and client = "()"
         and nodes = "[nodeA, nodeB, nodeC]", OF s t2]
  show ?thesis
    by (simp add: getNodes_sample) (simp add: sampleEnv_def)
qed

text \<open>
  C2 as stated fails: with no \<open>ssh_config\<close> in the arguments and none in the thread, a
  search that the client refuses makes resolution return the wrapped search error, not
  \<open>MissingDefaultError\<close>.
\<close>

theorem missing_default_error_kind_counterexample:
  "(Map.empty :: StringDict) (sshCfg identifiers) = None \<and>
   Local Map.empty (sshCfg identifiers) = None \<and>
   newKubeNodesProvider (sampleEnv (Inl (Errorf ''connection refused''))) Map.empty Map.empty
     = Inl (Wrap (Errorf ''connection refused'') ''could not fetch nodes'') \<and>
   newKubeNodesProvider (sampleEnv (Inl (Errorf ''connection refused''))) Map.empty Map.empty
     \<noteq> Inl MissingDefaultError"
  by (simp add: newKubeNodesProvider_def getNodes_def Local_def Let_def sampleEnv_def
        MissingDefaultError_def)

subsection \<open>The argument normalizer\<close>

text \<open>
  C3. Whatever the search-parameter constructor is, as long as the names it reports are
  read from the \<open>names\<close> attribute of the struct it is given (\<open>rd\<close> is that reading):
  without a \<open>nodes\<close> argument the effective names are those of the given \<open>names\<close>
  argument; with a \<open>nodes\<close> argument they are those of the \<open>nodes\<close> value, whether or not
  \<open>names\<close> was supplied as well.
\<close>

theorem generateSearchParams_names:
  assumes "\<And>p. names (newSearchParams p) = rd (p ''names'')"
  shows "(structVal ''nodes'' = None \<longrightarrow>
            names (generateSearchParams newSearchParams structVal) = rd (structVal ''names'')) \<and>
         (structVal ''nodes'' = Some n \<longrightarrow>
            names (generateSearchParams newSearchParams structVal) = rd (Some n))"
  using assms
  by (simp add: generateSearchParams_def Attr_def ToStringDict_def FromStringDict_def index_def)

theorem generateSearchParams_names_witness:
  "generateSearchParams (\<lambda>p. p) [''names'' \<mapsto> ListV [String ''node-a'']] ''names''
     = Some (ListV [String ''node-a''])
   \<and> generateSearchParams (\<lambda>p. p)
        [''nodes'' \<mapsto> ListV [String ''node-b''], ''names'' \<mapsto> ListV [String ''node-c'']] ''names''
     = Some (ListV [String ''node-b''])"
  using generateSearchParams_names
          [of "\<lambda>sp. sp ''names''" "\<lambda>p. p" "\<lambda>v. v" "[''names'' \<mapsto> ListV [String ''node-a'']]"]
        generateSearchParams_names
          [of "\<lambda>sp. sp ''names''" "\<lambda>p. p" "\<lambda>v. v"
              "[''nodes'' \<mapsto> ListV [String ''node-b''], ''names'' \<mapsto> ListV [String ''node-c'']]"
              "ListV [String ''node-b'']"]
  by simp

subsection \<open>The record converter\<close>

text \<open>
  C4. \<open>getNodeInternalIP\<close> returns the address of the first entry of the node's address
  list whose type is \<open>InternalIP\<close> (every entry before it has another type); when no
  entry has that type, the empty list included, it returns the empty string. The function
  is total and returns a string, so there is no error to signal.
\<close>

theorem getNodeInternalIP_first_InternalIP:
  "(Addresses (Status node) = pre @ a # post \<and> (\<forall>b\<in>set pre. Type b \<noteq> ''InternalIP'')
      \<and> Type a = ''InternalIP'' \<longrightarrow> getNodeInternalIP node = Address a) \<and>
   ((\<forall>b\<in>set (Addresses (Status node)). Type b \<noteq> ''InternalIP'')
      \<longrightarrow> getNodeInternalIP node = '''')"
  by (simp add: getNodeInternalIP_def internalIPLoop_none internalIPLoop_first)

theorem getNodeInternalIP_first_InternalIP_witness:
  "getNodeInternalIP (mkNode [(''Hostname'', ''node-a''), (''InternalIP'', ''10.0.0.5''),
                              (''ExternalIP'', ''34.1.2.3''), (''InternalIP'', ''10.0.0.6'')])
     = ''10.0.0.5''
   \<and> getNodeInternalIP (mkNode [(''Hostname'', ''node-b''), (''ExternalIP'', ''34.1.2.4'')]) = ''''
   \<and> getNodeInternalIP (mkNode []) = ''''"
  using getNodeInternalIP_first_InternalIP
          [of "mkNode [(''Hostname'', ''node-a''), (''InternalIP'', ''10.0.0.5''),
                       (''ExternalIP'', ''34.1.2.3''), (''InternalIP'', ''10.0.0.6'')]"
              "[\<lparr> Type = ''Hostname'', Address = ''node-a'' \<rparr>]"
              "\<lparr> Type = ''InternalIP'', Address = ''10.0.0.5'' \<rparr>"
              "[\<lparr> Type = ''ExternalIP'', Address = ''34.1.2.3'' \<rparr>,
                \<lparr> Type = ''InternalIP'', Address = ''10.0.0.6'' \<rparr>]"]
        getNodeInternalIP_first_InternalIP
          [of "mkNode [(''Hostname'', ''node-b''), (''ExternalIP'', ''34.1.2.4'')]"]
        getNodeInternalIP_first_InternalIP [of "mkNode []"]
  by (simp add: mkNode_def)

text \<open>
  C5. A successful resolution has run the node fetch, and the \<open>hosts\<close> attribute of the
  returned configuration is the list of the internal addresses of the fetched nodes: one
  entry per node, in the order of the fetch, empty strings kept.
\<close>

theorem hosts_in_discovery_order:
  assumes "newKubeNodesProvider e thread structVal = Inr cfg"
  shows "\<exists>kubeconfig client nodes.
           getKubeConfigPath e thread structVal = Inr kubeconfig \<and>
           k8sNew e kubeconfig = Inr client \<and>
           getNodes e client (Names e (generateSearchParams (NewSearchParams e) structVal))
                             (Labels e (generateSearchParams (NewSearchParams e) structVal))
             = Inr nodes \<and>
           Attr cfg ''hosts'' = Inr (ListV (map (\<lambda>node. String (getNodeInternalIP node)) nodes))"
proof -
  from newKubeNodesProvider_Inr [OF assms] obtain kubeconfig client nodes sshcfg where
    "getKubeConfigPath e thread structVal = Inr kubeconfig"
    "k8sNew e kubeconfig = Inr client"
    "getNodes e client (Names e (generateSearchParams (NewSearchParams e) structVal))
                       (Labels e (generateSearchParams (NewSearchParams e) structVal)) = Inr nodes"
    "cfg = [''kind'' \<mapsto> String ''kube_nodes_provider'', ''transport'' \<mapsto> String ''ssh'',
            ''hosts'' \<mapsto> ListV (map (\<lambda>node. String (getNodeInternalIP node)) nodes),
            ''ssh_config'' \<mapsto> Struct sshcfg]"
    by blast
  then show ?thesis by (auto simp: Attr_def)
qed

text \<open>
  An instance: three nodes in two non-empty results; the second node has no internal
  address and stays in the list as the empty string.
\<close>

theorem hosts_in_discovery_order_witness:
  "Attr [''kind'' \<mapsto> String ''kube_nodes_provider'', ''transport'' \<mapsto> String ''ssh'',
         ''hosts'' \<mapsto> ListV [String ''10.0.0.5'', String '''', String ''10.0.0.7''],
         ''ssh_config'' \<mapsto> Struct sampleSsh] ''hosts''
     = Inr (ListV (map (\<lambda>node. String (getNodeInternalIP node)) [nodeA, nodeB, nodeC]))"
  using hosts_in_discovery_order [OF provider_sample]
  by (auto simp: getNodes_sample)

text \<open>
  C6. When the search returns a raw result and every item of it decodes, \<open>getNodes\<close>
  returns as many nodes as there are items, and the nodes are the decoded items in the
  order of the items.
\<close>

theorem getNodes_all_decoded:
  assumes "Search e k8sc ''core'' ''nodes'' '''' '''' names labels '''' = Inr results"
      and "\<forall>item\<in>set (allItems results). \<not> isl (FromUnstructured e (Object item))"
  shows "\<exists>nodes. getNodes e k8sc names labels = Inr nodes \<and>
           length nodes = length (allItems results) \<and>
           map (\<lambda>item. FromUnstructured e (Object item)) (allItems results) = map Inr nodes"
proof (cases "collate (FromUnstructured e) results []")
  case (Inl err)
  from collate_Inl [OF this] assms(2) show ?thesis by auto
next
  case (Inr nodes)
  from collate_Inr [OF this] have
    m: "map (\<lambda>item. FromUnstructured e (Object item)) (allItems results) = map Inr nodes"
    by simp
  then have "length (allItems results) = length nodes" by (rule map_eq_imp_length_eq)
  with m Inr assms(1) show ?thesis by (simp add: getNodes_def)
qed

theorem getNodes_all_decoded_witness:
  "\<exists>nodes. getNodes (sampleEnv (Inr sampleResults)) () ''node-a node-b node-c'' '''' = Inr nodes \<and>
           length nodes = 3 \<and> map Inr nodes = [Inr nodeA, Inr nodeB, Inr nodeC]"
proof -
  have s: "Search (sampleEnv (Inr sampleResults)) () ''core'' ''nodes'' '''' ''''
             ''node-a node-b node-c'' '''' '''' = Inr sampleResults"
    by (simp add: sampleEnv_def)
  have d: "\<forall>item\<in>set (allItems sampleResults).
             \<not> isl (FromUnstructured (sampleEnv (Inr sampleResults)) (Object item))"
    by (simp add: sample_defs)
  from getNodes_all_decoded [OF s d] show ?thesis
    by (auto simp: allItems_def mkResult_def sampleEnv_def sampleResults_def)
qed

text \<open>
  C7. When the search returns a raw result of which some item does not decode, \<open>getNodes\<close>
  returns an error, the decoder's error on one of the items, and no nodes; and the
  resolution that made this search returns that error, wrapped, and no configuration.
\<close>

theorem decode_failure_aborts:
  assumes "Search e k8sc ''core'' ''nodes'' '''' '''' names labels '''' = Inr results"
      and "\<exists>item\<in>set (allItems results). isl (FromUnstructured e (Object item))"
  shows "\<exists>err. getNodes e k8sc names labels = Inl err \<and>
           (\<exists>item\<in>set (allItems results). FromUnstructured e (Object item) = Inl err) \<and>
           (getKubeConfigPath e thread structVal = Inr kubeconfig \<and>
            k8sNew e kubeconfig = Inr k8sc \<and>
            names = Names e (generateSearchParams (NewSearchParams e) structVal) \<and>
            labels = Labels e (generateSearchParams (NewSearchParams e) structVal)
            \<longrightarrow> newKubeNodesProvider e thread structVal
                  = Inl (Wrap err ''could not fetch nodes''))"
proof (cases "collate (FromUnstructured e) results []")
  case (Inl err)
  with assms(1) have g: "getNodes e k8sc names labels = Inl err" by (simp add: getNodes_def)
  from g have "getKubeConfigPath e thread structVal = Inr kubeconfig \<and>
            k8sNew e kubeconfig = Inr k8sc \<and>
            names = Names e (generateSearchParams (NewSearchParams e) structVal) \<and>
            labels = Labels e (generateSearchParams (NewSearchParams e) structVal)
            \<longrightarrow> newKubeNodesProvider e thread structVal
                  = Inl (Wrap err ''could not fetch nodes'')"
    by (auto simp: newKubeNodesProvider_def Let_def)
  with g collate_Inl [OF Inl] show ?thesis by blast
next
  case (Inr nodes)
  from collate_Inr [OF this] obtain ms where
    "map (\<lambda>item. FromUnstructured e (Object item)) (allItems results) = map Inr ms" by blast
  then have "\<forall>item\<in>set (allItems results). \<not> isl (FromUnstructured e (Object item))"
    by (metis (no_types, lifting) image_iff list.set_map sum.disc(2) imageI)
  with assms(2) show ?thesis by blast
qed

theorem decode_failure_aborts_witness:
  "getNodes (sampleEnv (Inr [mkResult [Inr nodeA, Inl (Errorf ''cannot decode''), Inr nodeC]]))
     () '''' '''' = Inl (Errorf ''cannot decode'') \<and>
   newKubeNodesProvider
     (sampleEnv (Inr [mkResult [Inr nodeA, Inl (Errorf ''cannot decode''), Inr nodeC]]))
     [''ssh_config'' \<mapsto> Struct sampleSsh] Map.empty
     = Inl (Wrap (Errorf ''cannot decode'') ''could not fetch nodes'')"
proof -
  let ?results = "[mkResult [Inr nodeA, Inl (Errorf ''cannot decode''), Inr nodeC]]"
  let ?e = "sampleEnv (Inr ?results)"
  have s: "Search ?e () ''core'' ''nodes'' '''' '''' '''' '''' '''' = Inr ?results"
    by (simp add: sampleEnv_def)
  have d: "\<exists>item\<in>set (allItems ?results). isl (FromUnstructured ?e (Object item))"
    by (simp add: sample_defs)
  from decode_failure_aborts [OF s d, of "[''ssh_config'' \<mapsto> Struct sampleSsh]" Map.empty
         "''/home/user/.kube/config''"]
  show ?thesis
    by (auto simp: sample_defs generateSearchParams_def Attr_def)
qed

subsection \<open>The returned configuration\<close>

text \<open>
  C8. Every returned configuration has \<open>kind\<close> equal to \<open>kube_nodes_provider\<close> and
  \<open>transport\<close> equal to \<open>ssh\<close>.
\<close>

theorem kind_transport:
  "newKubeNodesProvider e thread structVal = Inr cfg \<Longrightarrow>
     Attr cfg ''kind'' = Inr (String ''kube_nodes_provider'') \<and>
     Attr cfg ''transport'' = Inr (String ''ssh'')"
  by (auto dest!: newKubeNodesProvider_Inr simp: Attr_def)

theorem kind_transport_witness:
  "Attr [''kind'' \<mapsto> String ''kube_nodes_provider'', ''transport'' \<mapsto> String ''ssh'',
         ''hosts'' \<mapsto> ListV [String ''10.0.0.5'', String '''', String ''10.0.0.7''],
         ''ssh_config'' \<mapsto> Struct sampleSsh] ''kind'' = Inr (String ''kube_nodes_provider'') \<and>
   Attr [''kind'' \<mapsto> String ''kube_nodes_provider'', ''transport'' \<mapsto> String ''ssh'',
         ''hosts'' \<mapsto> ListV [String ''10.0.0.5'', String '''', String ''10.0.0.7''],
         ''ssh_config'' \<mapsto> Struct sampleSsh] ''transport'' = Inr (String ''ssh'')"
  using kind_transport [OF provider_sample] by simp

text \<open>
  C9. Two resolutions of the same arguments return the same result whenever both obtain a
  client, the two clients give the same response to the search the resolution makes, the
  decoder is the same, and the two threads hold the same entry under the \<open>ssh_config\<close>
  key. Nothing else of the environment or of the thread reaches the result: neither the
  kubeconfig path, nor the client itself, nor any other entry of the thread.
\<close>

theorem resolution_deterministic:
  assumes "getKubeConfigPath e1 thread1 structVal = Inr kubeconfig1"
      and "k8sNew e1 kubeconfig1 = Inr client1"
      and "getKubeConfigPath e2 thread2 structVal = Inr kubeconfig2"
      and "k8sNew e2 kubeconfig2 = Inr client2"
      and "Search e1 client1 ''core'' ''nodes'' '''' ''''
             (Names e1 (generateSearchParams (NewSearchParams e1) structVal))
             (Labels e1 (generateSearchParams (NewSearchParams e1) structVal)) ''''
         = Search e2 client2 ''core'' ''nodes'' '''' ''''
             (Names e2 (generateSearchParams (NewSearchParams e2) structVal))
             (Labels e2 (generateSearchParams (NewSearchParams e2) structVal)) ''''"
      and "FromUnstructured e1 = FromUnstructured e2"
      and "Local thread1 (sshCfg identifiers) = Local thread2 (sshCfg identifiers)"
  shows "newKubeNodesProvider e1 thread1 structVal = newKubeNodesProvider e2 thread2 structVal"
proof -
  have "getNodes e1 client1 (Names e1 (generateSearchParams (NewSearchParams e1) structVal))
             (Labels e1 (generateSearchParams (NewSearchParams e1) structVal))
      = getNodes e2 client2 (Names e2 (generateSearchParams (NewSearchParams e2) structVal))
             (Labels e2 (generateSearchParams (NewSearchParams e2) structVal))"
    unfolding getNodes_def assms(5) assms(6) ..
  with assms(1-4,7) show ?thesis
    by (simp add: newKubeNodesProvider_def Let_def cong: sum.case_cong option.case_cong)
qed

text \<open>
  An instance: the second run finds its kubeconfig elsewhere and its thread holds one more
  entry; the results are the same.
\<close>

theorem resolution_deterministic_witness:
  "newKubeNodesProvider (sampleEnv (Inr sampleResults))
     [''ssh_config'' \<mapsto> Struct sampleSsh] [''names'' \<mapsto> String ''node-a'']
   = newKubeNodesProvider
       ((sampleEnv (Inr sampleResults))
          \<lparr> getKubeConfigPath := (\<lambda>thread structVal. Inr ''/etc/kubeconfig'') \<rparr>)
       [''ssh_config'' \<mapsto> Struct sampleSsh, ''crashd_config'' \<mapsto> Dict None]
       [''names'' \<mapsto> String ''node-a'']"
  by (rule resolution_deterministic
        [where ?kubeconfig1.0 = "''/home/user/.kube/config''" and ?client1.0 = "()"
           and ?kubeconfig2.0 = "''/etc/kubeconfig''" and ?client2.0 = "()"])
     (simp_all add: sampleEnv_def Local_def identifiers_def)

section \<open>Properties of the crashd_config built-in\<close>

text \<open>
  C10. Every call replaces the entry of the thread under the \<open>crashd_config\<close> key with
  the dictionary built from its keyword arguments, whatever the thread held there before
  (the last writer wins), and returns that dictionary: a call without keyword arguments
  (a nil \<open>kwargs\<close>) stores and returns the nil dictionary, with no error; a call with
  keyword arguments stores and returns the dictionary that \<open>tupleSliceToDict\<close> builds
  from them.
\<close>

theorem crashdConfigFn_stores:
  "(kwargs = None \<longrightarrow>
      crashdConfigFn tupleSliceToDict thread kwargs
        = (Inr (Dict None), thread(crashdCfg identifiers \<mapsto> Dict None))) \<and>
   (kwargs = Some tuples \<and> tupleSliceToDict tuples = Inr dictionary \<longrightarrow>
      crashdConfigFn tupleSliceToDict thread kwargs
        = (Inr (Dict dictionary), thread(crashdCfg identifiers \<mapsto> Dict dictionary)))"
  by (simp add: crashdConfigFn_def SetLocal_def)

text \<open>
  An instance: a call without keyword arguments on a thread that holds an earlier
  dictionary, then a call with two keyword arguments on the thread the first call left.
\<close>

theorem crashdConfigFn_stores_witness:
  "crashdConfigFn keywordsToDict
       [''crashd_config'' \<mapsto> Dict (Some [(String ''uid'', String ''0'')])] None
     = (Inr (Dict None), [''crashd_config'' \<mapsto> Dict None]) \<and>
   crashdConfigFn keywordsToDict [''crashd_config'' \<mapsto> Dict None]
       (Some [(''workdir'', String ''/tmp/crashd''), (''uid'', String ''1000'')])
     = (Inr (Dict (Some [(String ''workdir'', String ''/tmp/crashd''),
                         (String ''uid'', String ''1000'')])),
        [''crashd_config'' \<mapsto>
           Dict (Some [(String ''workdir'', String ''/tmp/crashd''),
                       (String ''uid'', String ''1000'')])])"
proof -
  have c: "keywordsToDict [(''workdir'', String ''/tmp/crashd''), (''uid'', String ''1000'')]
             = Inr (Some [(String ''workdir'', String ''/tmp/crashd''),
                          (String ''uid'', String ''1000'')])"
    by (simp add: keywordsToDict_def)
  from crashdConfigFn_stores
         [where kwargs = None and tupleSliceToDict = keywordsToDict
            and thread = "[''crashd_config'' \<mapsto> Dict (Some [(String ''uid'', String ''0'')])]"]
       crashdConfigFn_stores
         [where kwargs = "Some [(''workdir'', String ''/tmp/crashd''), (''uid'', String ''1000'')]"
            and tuples = "[(''workdir'', String ''/tmp/crashd''), (''uid'', String ''1000'')]"
            and tupleSliceToDict = keywordsToDict
            and dictionary = "Some [(String ''workdir'', String ''/tmp/crashd''),
                                    (String ''uid'', String ''1000'')]"
            and thread = "[''crashd_config'' \<mapsto> Dict None]"]
       c
  show ?thesis by (simp add: identifiers_def)
qed

end
